theory Spec2Isabelle
  imports Complex_Main
begin

section \<open>Python values\<close>

text \<open>
  The valuation code of \<^verbatim>\<open>src/dcf_model.py\<close> and \<^verbatim>\<open>src/valuation.py\<close> computes on
  Python floats. They are embedded as real numbers: every arithmetic operation is the exact
  one, so rounding error, overflow to an infinity and NaN are outside this model. What the
  model keeps is every branch, every clamp, every loop and every place where Python raises
  (a division by zero, an index into an empty list).
\<close>

datatype py_error = ZeroDivisionError | IndexError

text \<open>
  \<^verbatim>\<open>round(x, ndigits)\<close>: the nearest multiple of \<open>10 ^ (- ndigits)\<close>, a tie going
  to the even neighbour.
\<close>

definition py_round :: "real \<Rightarrow> nat \<Rightarrow> real" where
  "py_round x ndigits =
     (let y = x * 10 ^ ndigits;
          f = \<lfloor>y\<rfloor>;
          d = y - of_int f;
          r = (if d < 1 / 2 then f
               else if 1 / 2 < d then f + 1
               else if even f then f else f + 1)
      in of_int r / 10 ^ ndigits)"

text \<open>\<^verbatim>\<open>_clamp(value, low, high)\<close> returns \<^verbatim>\<open>max(low, min(high, value))\<close>.\<close>

definition clamp :: "real \<Rightarrow> real \<Rightarrow> real \<Rightarrow> real" where
  "clamp v low high = max low (min high v)"

section \<open>Macro assumptions\<close>

definition RISK_FREE_RATE :: real where
  "RISK_FREE_RATE = 0.045"

definition EQUITY_RISK_PREMIUM :: real where
  "EQUITY_RISK_PREMIUM = 0.055"

definition LONG_TERM_GROWTH_RATE :: real where
  "LONG_TERM_GROWTH_RATE = 0.025"

definition FCF_EXIT_MULTIPLE :: real where
  "FCF_EXIT_MULTIPLE = 20"

definition PROJECTION_YEARS :: int where
  "PROJECTION_YEARS = 7"

definition MAX_INITIAL_GROWTH :: real where
  "MAX_INITIAL_GROWTH = 0.30"

definition MIN_INITIAL_GROWTH :: real where
  "MIN_INITIAL_GROWTH = - 0.20"

section \<open>Growth estimation\<close>

text \<open>
  The loop of \<^verbatim>\<open>calculate_historical_growth_rate\<close> over
  \<^verbatim>\<open>zip(fcf[:-1], fcf[1:])\<close>: a year-over-year rate is appended for every adjacent
  pair whose two values are strictly positive.
\<close>

fun yoy_loop :: "(real \<times> real) list \<Rightarrow> real list \<Rightarrow> real list" where
  "yoy_loop [] yoy_rates = yoy_rates"
| "yoy_loop ((prev, cur) # ps) yoy_rates =
     (if 0 < prev \<and> 0 < cur then yoy_loop ps (yoy_rates @ [cur / prev - 1])
      else yoy_loop ps yoy_rates)"

text \<open>
  \<^verbatim>\<open>historical_fcf[-5:]\<close> is the list without its first \<open>length - 5\<close> elements (the
  whole list when it has at most five). \<^verbatim>\<open>x ** y\<close> on a positive float base is
  \<open>x powr y\<close>.
\<close>

definition calculate_historical_growth_rate :: "real list \<Rightarrow> real" where
  "calculate_historical_growth_rate historical_fcf =
     (if length historical_fcf < 2 then 0.05
      else
        let fcf = drop (length historical_fcf - 5) historical_fcf;
            first = hd fcf;
            lst = last fcf;
            n = length fcf - 1
        in if 0 < first \<and> 0 < lst \<and> 0 < n
           then clamp ((lst / first) powr (1 / real n) - 1) MIN_INITIAL_GROWTH MAX_INITIAL_GROWTH
           else
             let yoy_rates = yoy_loop (zip (butlast fcf) (tl fcf)) []
             in if yoy_rates \<noteq> []
                then clamp (sum_list yoy_rates / real (length yoy_rates))
                       MIN_INITIAL_GROWTH MAX_INITIAL_GROWTH
                else 0.03)"

section \<open>Cost of capital\<close>

definition calculate_wacc ::
  "real \<Rightarrow> real \<Rightarrow> real \<Rightarrow> real \<Rightarrow> real \<Rightarrow> real \<Rightarrow> real \<Rightarrow> real" where
  "calculate_wacc beta market_cap total_debt interest_expense tax_rate
       risk_free_rate equity_risk_premium =
     (let cost_of_equity = risk_free_rate + beta * equity_risk_premium;
          cost_of_debt =
            (if 0 < total_debt \<and> 0 < interest_expense
             then clamp (interest_expense / total_debt) 0.01 0.20
             else risk_free_rate + 0.015);
          after_tax_cost_of_debt = cost_of_debt * (1 - tax_rate);
          total_capital = market_cap + total_debt
      in if total_capital \<le> 0 then cost_of_equity
         else
           let equity_weight = market_cap / total_capital;
               debt_weight = total_debt / total_capital;
               wacc = equity_weight * cost_of_equity + debt_weight * after_tax_cost_of_debt
           in clamp wacc 0.04 0.25)"

section \<open>Cash-flow projection\<close>

text \<open>
  The loop \<^verbatim>\<open>for t in range(1, years + 1)\<close> of \<^verbatim>\<open>project_free_cash_flows\<close>, with
  its two variables \<^verbatim>\<open>current_fcf\<close> and \<^verbatim>\<open>projected\<close> passed along. The quotient
  \<^verbatim>\<open>(t - 1) / max(years - 1, 1)\<close> is Python's true division of two integers; its
  divisor is at least 1.
\<close>

fun project_loop ::
  "real \<Rightarrow> int \<Rightarrow> real \<Rightarrow> int list \<Rightarrow> real \<Rightarrow> real list \<Rightarrow> real list" where
  "project_loop initial_growth_rate years long_term_growth_rate [] current_fcf projected =
     projected"
| "project_loop initial_growth_rate years long_term_growth_rate (t # ts) current_fcf projected =
     (let fade_factor = real_of_int (t - 1) / real_of_int (max (years - 1) 1);
          growth = initial_growth_rate
                     + fade_factor * (long_term_growth_rate - initial_growth_rate);
          current_fcf' = current_fcf * (1 + growth)
      in project_loop initial_growth_rate years long_term_growth_rate ts
           current_fcf' (projected @ [current_fcf']))"

definition project_free_cash_flows :: "real \<Rightarrow> real \<Rightarrow> int \<Rightarrow> real \<Rightarrow> real list" where
  "project_free_cash_flows base_fcf initial_growth_rate years long_term_growth_rate =
     project_loop initial_growth_rate years long_term_growth_rate [1..years] base_fcf []"

section \<open>Terminal value\<close>

definition calculate_terminal_value :: "real \<Rightarrow> real \<Rightarrow> real \<Rightarrow> real \<Rightarrow> real" where
  "calculate_terminal_value terminal_fcf wacc long_term_growth_rate exit_multiple =
     (let spread = wacc - long_term_growth_rate;
          spread = (if spread \<le> 0.001 then 0.001 else spread);
          tv_perpetuity = terminal_fcf * (1 + long_term_growth_rate) / spread;
          tv_exit_multiple = terminal_fcf * exit_multiple
      in (tv_perpetuity + tv_exit_multiple) / 2)"

section \<open>Discounting\<close>

text \<open>
  The loop \<^verbatim>\<open>for t, cf in enumerate(cash_flows, start=1)\<close>. The discount factor
  \<^verbatim>\<open>(1.0 + wacc) ** t\<close> has an integer exponent; dividing by it raises when it is
  zero.
\<close>

fun discount_loop :: "real \<Rightarrow> nat \<Rightarrow> real list \<Rightarrow> real \<Rightarrow> py_error + real" where
  "discount_loop wacc t [] pv_sum = Inr pv_sum"
| "discount_loop wacc t (cf # cfs) pv_sum =
     (if (1 + wacc) ^ t = 0 then Inl ZeroDivisionError
      else discount_loop wacc (Suc t) cfs (pv_sum + cf / (1 + wacc) ^ t))"

definition discount_cash_flows :: "real list \<Rightarrow> real \<Rightarrow> real \<Rightarrow> py_error + real" where
  "discount_cash_flows cash_flows terminal_value wacc =
     (case discount_loop wacc 1 cash_flows 0 of
        Inl e \<Rightarrow> Inl e
      | Inr pv_sum \<Rightarrow>
          let n = length cash_flows
          in if (1 + wacc) ^ n = 0 then Inl ZeroDivisionError
             else Inr (pv_sum + terminal_value / (1 + wacc) ^ n))"

section \<open>Intrinsic value\<close>

text \<open>
  The dictionary produced by the data fetcher, as a record. The three keys read with
  \<^verbatim>\<open>.get(key, default)\<close> may be absent; the keys read with \<^verbatim>\<open>[key]\<close> are
  present in every record the fetcher builds. An absent \<^verbatim>\<open>historical_fcf\<close> reads
  as the empty list.
\<close>

record company_data =
  cd_ticker :: "string option"
  cd_name :: "string option"
  cd_sector :: "string option"
  cd_current_price :: real
  cd_shares_outstanding :: real
  cd_historical_fcf :: "real list"
  cd_beta :: real
  cd_market_cap :: real
  cd_total_debt :: real
  cd_interest_expense :: real
  cd_tax_rate :: real

record valuation =
  val_ticker :: string
  val_name :: string
  val_sector :: string
  val_current_price :: real
  val_intrinsic_value :: real
  val_wacc :: real
  val_fcf_growth_rate :: real
  val_base_fcf :: real
  val_shares_outstanding :: real

text \<open>
  \<^verbatim>\<open>calculate_intrinsic_value\<close> returns \<^verbatim>\<open>None\<close> (\<open>Inr None\<close>), a result
  dictionary (\<open>Inr (Some r)\<close>) or raises (\<open>Inl e\<close>). The checks come in the source's
  order: the share count is tested after the cash flows have been discounted.
\<close>

definition calculate_intrinsic_value :: "company_data \<Rightarrow> py_error + valuation option" where
  "calculate_intrinsic_value company_data =
     (let ticker = (case cd_ticker company_data of None \<Rightarrow> ''UNKNOWN'' | Some s \<Rightarrow> s);
          historical_fcf = cd_historical_fcf company_data
      in if historical_fcf = [] then Inr None
         else
           let base_fcf = last historical_fcf
           in if base_fcf = 0 then Inr None
              else
                let growth_rate0 = calculate_historical_growth_rate historical_fcf;
                    growth_rate = (if base_fcf < 0 then max growth_rate0 0.05 else growth_rate0);
                    wacc = calculate_wacc (cd_beta company_data) (cd_market_cap company_data)
                             (cd_total_debt company_data) (cd_interest_expense company_data)
                             (cd_tax_rate company_data) RISK_FREE_RATE EQUITY_RISK_PREMIUM;
                    projected_fcf = project_free_cash_flows base_fcf growth_rate
                                      PROJECTION_YEARS LONG_TERM_GROWTH_RATE
                in if projected_fcf = [] then Inl IndexError
                   else
                     let terminal_value = calculate_terminal_value (last projected_fcf) wacc
                                            LONG_TERM_GROWTH_RATE FCF_EXIT_MULTIPLE
                     in case discount_cash_flows projected_fcf terminal_value wacc of
                          Inl e \<Rightarrow> Inl e
                        | Inr equity_value \<Rightarrow>
                            let net_debt = cd_total_debt company_data;
                                equity_value_adjusted = equity_value - net_debt;
                                shares = cd_shares_outstanding company_data
                            in if shares \<le> 0 then Inr None
                               else
                                 let intrinsic_value_per_share = equity_value_adjusted / shares
                                 in Inr (Some
                                      \<lparr>val_ticker = ticker,
                                       val_name = (case cd_name company_data of
                                                     None \<Rightarrow> ticker | Some s \<Rightarrow> s),
                                       val_sector = (case cd_sector company_data of
                                                       None \<Rightarrow> ''Unknown'' | Some s \<Rightarrow> s),
                                       val_current_price = cd_current_price company_data,
                                       val_intrinsic_value = py_round intrinsic_value_per_share 2,
                                       val_wacc = py_round wacc 4,
                                       val_fcf_growth_rate = py_round growth_rate 4,
                                       val_base_fcf = py_round base_fcf 0,
                                       val_shares_outstanding = shares\<rparr>))"

section \<open>Signal classification\<close>

definition BUY_THRESHOLD :: real where
  "BUY_THRESHOLD = 0.15"

definition SELL_THRESHOLD :: real where
  "SELL_THRESHOLD = - 0.15"

definition generate_signal :: "real \<Rightarrow> string" where
  "generate_signal upside_pct =
     (if BUY_THRESHOLD \<le> upside_pct then ''Buy''
      else if upside_pct \<le> SELL_THRESHOLD then ''Sell''
      else ''Hold'')"

text \<open>
  The row dictionary of \<^verbatim>\<open>build_valuation_row\<close>; each field is named after its key:
  \<^verbatim>\<open>"Current Price ($)"\<close>, \<^verbatim>\<open>"Intrinsic Value ($)"\<close>,
  \<^verbatim>\<open>"% Upside/Downside"\<close>, \<^verbatim>\<open>"Valuation Signal"\<close>, \<^verbatim>\<open>"WACC (%)"\<close> and
  \<^verbatim>\<open>"FCF Growth Rate (%)"\<close>.
\<close>

record valuation_row =
  row_Ticker :: string
  row_Company :: string
  row_Sector :: string
  row_Current_Price :: real
  row_Intrinsic_Value :: real
  row_Pct_Upside_Downside :: real
  row_Valuation_Signal :: string
  row_WACC_Pct :: real
  row_FCF_Growth_Rate_Pct :: real

definition build_valuation_row :: "valuation \<Rightarrow> valuation_row option" where
  "build_valuation_row v =
     (let current_price = val_current_price v;
          intrinsic_value = val_intrinsic_value v
      in if current_price \<le> 0 then None
         else
           let upside_pct = (intrinsic_value - current_price) / current_price;
               signal = generate_signal upside_pct
           in Some
                \<lparr>row_Ticker = val_ticker v,
                 row_Company = val_name v,
                 row_Sector = val_sector v,
                 row_Current_Price = py_round current_price 2,
                 row_Intrinsic_Value = py_round intrinsic_value 2,
                 row_Pct_Upside_Downside = py_round (upside_pct * 100) 1,
                 row_Valuation_Signal = signal,
                 row_WACC_Pct = py_round (val_wacc v * 100) 2,
                 row_FCF_Growth_Rate_Pct = py_round (val_fcf_growth_rate v * 100) 2\<rparr>)"

section \<open>Sample inputs of the test suite\<close>


text \<open>
  \<^verbatim>\<open>_sample_valuation\<close> of \<^verbatim>\<open>tests/test_valuation.py\<close>, with the two values the
  tests override as parameters.
\<close>

definition sample_valuation :: "real \<Rightarrow> real \<Rightarrow> valuation" where
  "sample_valuation current_price intrinsic_value =
     \<lparr>val_ticker = ''AAPL'', val_name = ''Apple Inc.'', val_sector = ''Technology'',
      val_current_price = current_price, val_intrinsic_value = intrinsic_value,
      val_wacc = 0.09, val_fcf_growth_rate = 0.10, val_base_fcf = 90000000000,
      val_shares_outstanding = 15500000000\<rparr>"

section \<open>Auxiliary notions for the proofs\<close>



text \<open>The interpolated growth rate of projection year \<open>t\<close>.\<close>

definition growth_at :: "real \<Rightarrow> int \<Rightarrow> real \<Rightarrow> int \<Rightarrow> real" where
  "growth_at g years L t = g + (real_of_int (t - 1) / real_of_int (max (years - 1) 1)) * (L - g)"

section \<open>Signal thresholds\<close>

text \<open>
  Claim C8. For every real upside, \<open>generate_signal\<close> answers Buy exactly when the upside
  is at least 0.15, Sell exactly when it is at most -0.15 and Hold in every other case;
  both thresholds are inclusive, so 0.15 itself is Buy and -0.15 itself is Sell.
\<close>

theorem generate_signal_thresholds:
  "(generate_signal u = ''Buy'') = (0.15 \<le> u)
   \<and> (generate_signal u = ''Sell'') = (u \<le> - 0.15)
   \<and> (generate_signal u = ''Hold'') = (- 0.15 < u \<and> u < 0.15)
   \<and> generate_signal 0.15 = ''Buy''
   \<and> generate_signal (- 0.15) = ''Sell''"
  by (auto simp add: generate_signal_def BUY_THRESHOLD_def SELL_THRESHOLD_def)

section \<open>Terminal value\<close>

text \<open>
  Claim C5. For every terminal cash flow, discount rate, long-term growth rate and exit
  multiple, \<open>calculate_terminal_value\<close> is the mean of the perpetuity value, whose spread
  is floored at 0.001, and the exit-multiple value. For a terminal cash flow of 1,000,000
  and a discount rate of 0.09, with the default growth rate 0.025 and multiple 20, it is
  \<open>((1000000 * 1.025 / 0.065) + 1000000 * 20) / 2\<close>, which is 17,884,615.38 to the cent.
\<close>

theorem calculate_terminal_value_blend:
  "calculate_terminal_value terminal_fcf wacc long_term_growth_rate exit_multiple =
     (terminal_fcf * (1 + long_term_growth_rate) / max (wacc - long_term_growth_rate) 0.001
        + terminal_fcf * exit_multiple) / 2
   \<and> calculate_terminal_value 1000000 0.09 LONG_TERM_GROWTH_RATE FCF_EXIT_MULTIPLE =
       (1000000 * 1.025 / 0.065 + 1000000 * 20) / 2
   \<and> \<bar>calculate_terminal_value 1000000 0.09 LONG_TERM_GROWTH_RATE FCF_EXIT_MULTIPLE
        - 17884615.38\<bar> < 0.01"
  by (simp add: calculate_terminal_value_def Let_def max_def LONG_TERM_GROWTH_RATE_def
        FCF_EXIT_MULTIPLE_def)

section \<open>Cost of capital\<close>

lemma clamp_bounds:
  "low \<le> high \<Longrightarrow> low \<le> clamp v low high \<and> clamp v low high \<le> high"
  by (simp add: clamp_def)

text \<open>
  Claim C3. Whenever market capitalisation plus total debt is positive, the rate
  \<open>calculate_wacc\<close> returns lies between 0.04 and 0.25, whatever the other inputs. When
  the capital is not positive and beta is positive, the function returns the cost of equity
  under the default risk-free rate and equity risk premium, which is not negative.
\<close>

theorem calculate_wacc_range:
  "(0 < market_cap + total_debt \<longrightarrow>
      0.04 \<le> calculate_wacc beta market_cap total_debt interest_expense tax_rate
                risk_free_rate equity_risk_premium
      \<and> calculate_wacc beta market_cap total_debt interest_expense tax_rate
           risk_free_rate equity_risk_premium \<le> 0.25)
   \<and> (market_cap + total_debt \<le> 0 \<and> 0 < beta \<longrightarrow>
      0 \<le> calculate_wacc beta market_cap total_debt interest_expense tax_rate
             RISK_FREE_RATE EQUITY_RISK_PREMIUM)"
proof (rule conjI; rule impI)
  assume "0 < market_cap + total_debt"
  then obtain x where "calculate_wacc beta market_cap total_debt interest_expense tax_rate
                         risk_free_rate equity_risk_premium = clamp x 0.04 0.25"
    by (simp add: calculate_wacc_def Let_def)
  moreover have "0.04 \<le> clamp x 0.04 0.25 \<and> clamp x 0.04 0.25 \<le> 0.25"
    by (rule clamp_bounds) simp
  ultimately show "0.04 \<le> calculate_wacc beta market_cap total_debt interest_expense tax_rate
                risk_free_rate equity_risk_premium
      \<and> calculate_wacc beta market_cap total_debt interest_expense tax_rate
           risk_free_rate equity_risk_premium \<le> 0.25"
    by simp
next
  assume a: "market_cap + total_debt \<le> 0 \<and> 0 < beta"
  then have "calculate_wacc beta market_cap total_debt interest_expense tax_rate
               RISK_FREE_RATE EQUITY_RISK_PREMIUM = RISK_FREE_RATE + beta * EQUITY_RISK_PREMIUM"
    by (simp add: calculate_wacc_def Let_def)
  moreover have "0 \<le> RISK_FREE_RATE + beta * EQUITY_RISK_PREMIUM"
    using a by (simp add: RISK_FREE_RATE_def EQUITY_RISK_PREMIUM_def)
  ultimately show "0 \<le> calculate_wacc beta market_cap total_debt interest_expense tax_rate
             RISK_FREE_RATE EQUITY_RISK_PREMIUM"
    by simp
qed

text \<open>
  The capital structure of \<^verbatim>\<open>test_reasonable_wacc_range\<close>, and a company without
  capital data.
\<close>

theorem calculate_wacc_range_witness:
  "(0::real) < 500000000000 + 100000000000
   \<and> 0.04 \<le> calculate_wacc 1 500000000000 100000000000 3000000000 0.21
               RISK_FREE_RATE EQUITY_RISK_PREMIUM
   \<and> calculate_wacc 1 500000000000 100000000000 3000000000 0.21
        RISK_FREE_RATE EQUITY_RISK_PREMIUM \<le> 0.25
   \<and> (0::real) + 0 \<le> 0 \<and> (0::real) < 1
   \<and> 0 \<le> calculate_wacc 1 0 0 0 0.21 RISK_FREE_RATE EQUITY_RISK_PREMIUM"
  using calculate_wacc_range [of "500000000000" "100000000000" "1" "3000000000" "0.21"
          "RISK_FREE_RATE" "EQUITY_RISK_PREMIUM"]
        calculate_wacc_range [of "0" "0" "1" "0" "0.21" "RISK_FREE_RATE" "EQUITY_RISK_PREMIUM"]
  by simp


section \<open>Cash-flow projection\<close>

lemma project_loop_length:
  "length (project_loop g years L ts cur proj) = length proj + length ts"
  by (induction ts arbitrary: cur proj) (simp_all add: Let_def)

lemma project_loop_prefix:
  "i < length proj \<Longrightarrow> project_loop g years L ts cur proj ! i = proj ! i"
  by (induction ts arbitrary: cur proj) (simp_all add: Let_def nth_append)

lemma project_loop_step:
  "j < length ts \<Longrightarrow>
   project_loop g years L ts cur proj ! (length proj + j) =
     (if j = 0 then cur else project_loop g years L ts cur proj ! (length proj + j - 1))
       * (1 + growth_at g years L (ts ! j))"
proof (induction ts arbitrary: cur proj j)
  case Nil
  then show ?case by simp
next
  case (Cons t ts)
  define cur' where "cur' = cur * (1 + growth_at g years L t)"
  have unfold: "project_loop g years L (t # ts) cur proj =
                project_loop g years L ts cur' (proj @ [cur'])"
    by (simp add: Let_def cur'_def growth_at_def)
  have first: "project_loop g years L ts cur' (proj @ [cur']) ! length proj = cur'"
    using project_loop_prefix [of "length proj" "proj @ [cur']" g years L ts cur'] by simp
  show ?case
  proof (cases j)
    case 0
    then show ?thesis using unfold first by (simp add: cur'_def)
  next
    case (Suc k)
    with Cons.prems have k: "k < length ts" by simp
    have "project_loop g years L ts cur' (proj @ [cur']) ! (length (proj @ [cur']) + k) =
          (if k = 0 then cur'
           else project_loop g years L ts cur' (proj @ [cur']) ! (length (proj @ [cur']) + k - 1))
            * (1 + growth_at g years L (ts ! k))"
      using Cons.IH [OF k] .
    then show ?thesis using unfold first Suc by (cases k) simp_all
  qed
qed

text \<open>
  Claim C6. For a horizon of at least one year, \<open>project_free_cash_flows\<close> returns
  exactly \<open>years\<close> values, and the value of year \<open>t\<close> is the value of year
  \<open>t - 1\<close> (the base cash flow for the first year) times one plus the growth rate
  \<open>g + ((t - 1) / max (years - 1) 1) * (L - g)\<close>. With the default horizon it returns
  seven values.
\<close>

theorem project_free_cash_flows_recurrence:
  assumes "1 \<le> years"
  shows "length (project_free_cash_flows base_fcf g years L) = nat years
     \<and> (\<forall>t \<in> {1 .. nat years}.
          project_free_cash_flows base_fcf g years L ! (t - 1) =
            (if t = 1 then base_fcf else project_free_cash_flows base_fcf g years L ! (t - 2))
              * (1 + (g + (real (t - 1) / real_of_int (max (years - 1) 1)) * (L - g))))
     \<and> length (project_free_cash_flows base_fcf g PROJECTION_YEARS LONG_TERM_GROWTH_RATE) = 7"
proof (intro conjI ballI)
  show "length (project_free_cash_flows base_fcf g years L) = nat years"
    using assms by (simp add: project_free_cash_flows_def project_loop_length)
  show "length (project_free_cash_flows base_fcf g PROJECTION_YEARS LONG_TERM_GROWTH_RATE) = 7"
    by (simp add: project_free_cash_flows_def project_loop_length PROJECTION_YEARS_def)
next
  fix t assume t: "t \<in> {1 .. nat years}"
  let ?p = "project_loop g years L [1..years] base_fcf []"
  have j: "t - 1 < length [1..years]" using t by auto
  have le: "1 + int (t - 1) \<le> years" using t by auto
  have "[1..years] ! (t - 1) = 1 + int (t - 1)" using le by (rule nth_upto)
  then have nth: "[1..years] ! (t - 1) = int t" using t by auto
  have gr: "growth_at g years L (int t) =
              g + (real (t - 1) / real_of_int (max (years - 1) 1)) * (L - g)"
    using t by (simp add: growth_at_def of_nat_diff)
  have step: "?p ! (length ([]::real list) + (t - 1)) =
        (if t - 1 = 0 then base_fcf else ?p ! (length ([]::real list) + (t - 1) - 1))
          * (1 + growth_at g years L ([1..years] ! (t - 1)))"
    using j by (rule project_loop_step)
  show "project_free_cash_flows base_fcf g years L ! (t - 1) =
            (if t = 1 then base_fcf else project_free_cash_flows base_fcf g years L ! (t - 2))
              * (1 + (g + (real (t - 1) / real_of_int (max (years - 1) 1)) * (L - g)))"
  proof (cases "t = 1")
    case True
    then show ?thesis using step unfolding nth gr project_free_cash_flows_def by simp
  next
    case False
    then have "t - 1 \<noteq> 0" and "t - 1 - 1 = t - 2" using t by auto
    then show ?thesis using step False unfolding nth gr project_free_cash_flows_def by simp
  qed
qed

text \<open>The projection of \<^verbatim>\<open>test_returns_correct_number_of_years\<close>.\<close>

theorem project_free_cash_flows_recurrence_witness:
  "(1::int) \<le> 7
   \<and> length (project_free_cash_flows 1000000 0.10 7 0.025) = 7
   \<and> project_free_cash_flows 1000000 0.10 7 0.025 ! 0 = 1000000 * (1 + 0.10)
   \<and> project_free_cash_flows 1000000 0.10 7 0.025 ! 1 =
       project_free_cash_flows 1000000 0.10 7 0.025 ! 0
         * (1 + (0.10 + (1 / 6) * (0.025 - 0.10)))"
proof -
  have h: "(1::int) \<le> 7" by simp
  note r = project_free_cash_flows_recurrence [OF h, of 1000000 "0.10" "0.025"]
  have len: "length (project_free_cash_flows 1000000 0.10 7 0.025) = 7"
    using r by simp
  have all: "\<forall>t \<in> {1 .. nat 7}.
          project_free_cash_flows 1000000 0.10 7 0.025 ! (t - 1) =
            (if t = 1 then 1000000 else project_free_cash_flows 1000000 0.10 7 0.025 ! (t - 2))
              * (1 + (0.10 + (real (t - 1) / real_of_int (max (7 - 1) 1)) * (0.025 - 0.10)))"
    using r by blast
  have one: "project_free_cash_flows 1000000 0.10 7 0.025 ! 0 = 1000000 * (1 + 0.10)"
    using bspec [OF all, of 1] by simp
  have two: "project_free_cash_flows 1000000 0.10 7 0.025 ! 1 =
       project_free_cash_flows 1000000 0.10 7 0.025 ! 0
         * (1 + (0.10 + (1 / 6) * (0.025 - 0.10)))"
    using bspec [OF all, of 2] by simp
  show ?thesis using h len one two by blast
qed


section \<open>Discounting\<close>









section \<open>Intrinsic value\<close>














section \<open>Growth estimation\<close>

lemma clamp_pos: "0 < v \<Longrightarrow> 0 < clamp v (- 0.20) 0.30"
  by (auto simp add: clamp_def max_def min_def)

text \<open>
  Claim C2, as amended. For every history of at least two values, let the window be its
  last five values (the whole history when it has at most five). When the first value of
  the window and the last value of the history are strictly positive,
  \<open>calculate_historical_growth_rate\<close> returns \<open>(last / first) powr (1 / n) - 1\<close>
  clamped to the interval from -0.20 to 0.30, where \<open>first\<close> is the first value of the
  window and \<open>n\<close> is the length of the window minus 1. For a history of at most five
  values these are the first value and the length minus 1 of the whole history.
\<close>

theorem growth_rate_cagr_window:
  assumes "2 \<le> length historical_fcf"
    and "0 < hd (drop (length historical_fcf - 5) historical_fcf)"
    and "0 < last historical_fcf"
  shows "calculate_historical_growth_rate historical_fcf =
           clamp ((last historical_fcf / hd (drop (length historical_fcf - 5) historical_fcf))
                    powr (1 / real (min (length historical_fcf) 5 - 1)) - 1) (- 0.20) 0.30
     \<and> (length historical_fcf \<le> 5 \<longrightarrow>
          calculate_historical_growth_rate historical_fcf =
            clamp ((last historical_fcf / hd historical_fcf)
                     powr (1 / real (length historical_fcf - 1)) - 1) (- 0.20) 0.30)"
proof -
  let ?fcf = "drop (length historical_fcf - 5) historical_fcf"
  have len: "length ?fcf = min (length historical_fcf) 5" by auto
  have lst: "last ?fcf = last historical_fcf" using assms(1) by simp
  have n: "0 < length ?fcf - 1" using assms(1) len by auto
  have eq: "calculate_historical_growth_rate historical_fcf =
           clamp ((last historical_fcf / hd ?fcf)
                    powr (1 / real (min (length historical_fcf) 5 - 1)) - 1) (- 0.20) 0.30"
    using assms n lst len
    by (simp add: calculate_historical_growth_rate_def Let_def MIN_INITIAL_GROWTH_def
          MAX_INITIAL_GROWTH_def)
  show ?thesis
  proof (intro conjI impI)
    show "calculate_historical_growth_rate historical_fcf =
           clamp ((last historical_fcf / hd ?fcf)
                    powr (1 / real (min (length historical_fcf) 5 - 1)) - 1) (- 0.20) 0.30"
      by (rule eq)
    assume short: "length historical_fcf \<le> 5"
    then have "?fcf = historical_fcf" and "min (length historical_fcf) 5 = length historical_fcf"
      by simp_all
    then show "calculate_historical_growth_rate historical_fcf =
            clamp ((last historical_fcf / hd historical_fcf)
                     powr (1 / real (length historical_fcf - 1)) - 1) (- 0.20) 0.30"
      using eq by simp
  qed
qed

theorem growth_rate_cagr_window_witness:
  "2 \<le> length [100, 110 :: real]
   \<and> 0 < hd (drop (length [100, 110 :: real] - 5) [100, 110 :: real])
   \<and> 0 < last [100, 110 :: real] \<and> length [100, 110 :: real] \<le> 5
   \<and> calculate_historical_growth_rate [100, 110] = 0.1"
  using growth_rate_cagr_window [of "[100, 110]"] by (simp add: clamp_def)

text \<open>
  The claim as first stated takes the first value and the length of the whole history. On
  the six-year history \<open>[1, 2, 2, 2, 2, 2]\<close> the window is \<open>[2, 2, 2, 2, 2]\<close> and the
  function returns 0, while the formula over the whole history gives \<open>2 powr (1 / 5) - 1\<close>,
  which is positive.
\<close>

theorem growth_rate_whole_series_counterexample:
  "2 \<le> length [1, 2, 2, 2, 2, 2 :: real] \<and> 0 < hd [1, 2, 2, 2, 2, 2 :: real]
   \<and> 0 < last [1, 2, 2, 2, 2, 2 :: real]
   \<and> calculate_historical_growth_rate [1, 2, 2, 2, 2, 2] \<noteq>
       clamp ((last [1, 2, 2, 2, 2, 2] / hd [1, 2, 2, 2, 2, 2])
                powr (1 / real (length [1, 2, 2, 2, 2, 2 :: real] - 1)) - 1) (- 0.20) 0.30"
proof -
  have code: "calculate_historical_growth_rate [1, 2, 2, 2, 2, 2] = 0"
    by (simp add: calculate_historical_growth_rate_def Let_def clamp_def
          MIN_INITIAL_GROWTH_def MAX_INITIAL_GROWTH_def)
  have "(1::real) < 2 powr (1 / 5)" by (rule gr_one_powr) simp_all
  then have "(0::real) < 2 powr (1 / 5) - 1" by linarith
  then have "0 < clamp ((2::real) powr (1 / 5) - 1) (- 0.20) 0.30" by (rule clamp_pos)
  then have "clamp ((2::real) powr (1 / 5) - 1) (- 0.20) 0.30 \<noteq> 0" by linarith
  then show ?thesis unfolding code by simp
qed

section \<open>Valuation rows\<close>

text \<open>
  Claim C10, as amended. \<open>build_valuation_row\<close> returns no row exactly when the current
  price is not positive. Otherwise the row's \<^verbatim>\<open>% Upside/Downside\<close> is the upside
  \<open>(intrinsic_value - current_price) / current_price\<close> as a percentage, rounded to one
  decimal, and its signal is \<open>generate_signal\<close> of the unrounded upside. The price plays
  no part in whether \<open>calculate_intrinsic_value\<close> returns a result: changing it only
  changes the price copied into the result.
\<close>

theorem build_valuation_row_percent:
  "(build_valuation_row v = None) = (val_current_price v \<le> 0)
   \<and> (0 < val_current_price v \<longrightarrow>
        (\<exists>row. build_valuation_row v = Some row
           \<and> row_Pct_Upside_Downside row =
               py_round ((val_intrinsic_value v - val_current_price v) / val_current_price v * 100) 1
           \<and> row_Valuation_Signal row =
               generate_signal ((val_intrinsic_value v - val_current_price v) / val_current_price v)))
   \<and> calculate_intrinsic_value (c\<lparr>cd_current_price := p\<rparr>) =
       map_sum id (map_option (\<lambda>r. r\<lparr>val_current_price := p\<rparr>)) (calculate_intrinsic_value c)"
proof (intro conjI)
  show "(build_valuation_row v = None) = (val_current_price v \<le> 0)"
    by (simp add: build_valuation_row_def Let_def)
  show "0 < val_current_price v \<longrightarrow>
        (\<exists>row. build_valuation_row v = Some row
           \<and> row_Pct_Upside_Downside row =
               py_round ((val_intrinsic_value v - val_current_price v) / val_current_price v * 100) 1
           \<and> row_Valuation_Signal row =
               generate_signal ((val_intrinsic_value v - val_current_price v) / val_current_price v))"
    by (simp add: build_valuation_row_def Let_def)
  show "calculate_intrinsic_value (c\<lparr>cd_current_price := p\<rparr>) =
       map_sum id (map_option (\<lambda>r. r\<lparr>val_current_price := p\<rparr>)) (calculate_intrinsic_value c)"
    by (simp add: calculate_intrinsic_value_def Let_def split: sum.splits)
qed

text \<open>The valuation of \<^verbatim>\<open>test_buy_signal_when_undervalued\<close>.\<close>

theorem build_valuation_row_percent_witness:
  "0 < val_current_price (sample_valuation 100 200)
   \<and> (\<exists>row. build_valuation_row (sample_valuation 100 200) = Some row
           \<and> row_Pct_Upside_Downside row = 100
           \<and> row_Valuation_Signal row = ''Buy'')"
  using build_valuation_row_percent [of "sample_valuation 100 200"]
  by (simp add: sample_valuation_def py_round_def generate_signal_def BUY_THRESHOLD_def)

text \<open>
  The claim as first stated has the row hold the upside itself. For the valuation of
  \<^verbatim>\<open>test_upside_pct_calculated_correctly\<close> (price 100, intrinsic value 150) the upside is
  0.5 and the row holds 50.
\<close>

theorem build_valuation_row_upside_counterexample:
  "0 < val_current_price (sample_valuation 100 150)
   \<and> map_option row_Pct_Upside_Downside (build_valuation_row (sample_valuation 100 150)) = Some 50
   \<and> map_option row_Pct_Upside_Downside (build_valuation_row (sample_valuation 100 150))
        \<noteq> Some ((val_intrinsic_value (sample_valuation 100 150)
                     - val_current_price (sample_valuation 100 150))
                    / val_current_price (sample_valuation 100 150))"
  by (simp add: build_valuation_row_def sample_valuation_def Let_def py_round_def)

end
